theory Spec2Isabelle
  imports Complex_Main "HOL-Library.Sublist"
begin

section \<open>Strings\<close>

text \<open>
  Location names are JavaScript strings. They are modelled as \<^typ>\<open>string\<close>, restricted
  to ASCII text: \<open>toLowerCase\<close> maps the letters A to Z and leaves every other character
  alone, and \<open>js_includes hay needle\<close> is \<open>hay.includes(needle)\<close>: the needle occurs
  at some position of the haystack.
\<close>

definition toLowerCase_char :: "char \<Rightarrow> char" where
  "toLowerCase_char c =
     (case map_of (zip ''ABCDEFGHIJKLMNOPQRSTUVWXYZ'' ''abcdefghijklmnopqrstuvwxyz'') c of
        Some l \<Rightarrow> l
      | None \<Rightarrow> c)"

definition toLowerCase :: "string \<Rightarrow> string" where
  "toLowerCase s = map toLowerCase_char s"

fun js_includes :: "string \<Rightarrow> string \<Rightarrow> bool" where
  "js_includes [] needle = (needle = [])"
| "js_includes (c # cs) needle = (prefix needle (c # cs) \<or> js_includes cs needle)"

section \<open>The coordinate table of ItineraryMap\<close>

text \<open>
  \<open>locationCoordinates\<close> is an object literal. Its own keys are kept in the order of the
  literal, which is the order \<open>Object.keys\<close> lists them in (none of them is an integer
  index). A coordinate is the pair (longitude, latitude).
\<close>

definition locationCoordinates :: "(string \<times> (real \<times> real)) list" where
  "locationCoordinates =
    [(''Vashi'', (73.0071, 19.0754)),
     (''Belapur'', (73.0358, 19.0235)),
     (''Kharghar'', (73.0785, 19.0477)),
     (''Nerul'', (73.0157, 19.0377)),
     (''Panvel'', (73.1088, 18.9894)),
     (''Airoli'', (72.9985, 19.1557)),
     (''Ghansoli'', (73.0085, 19.1162)),
     (''Kopar Khairane'', (73.0071, 19.1050)),
     (''Sanpada'', (73.0119, 19.0506)),
     (''Turbhe'', (73.0224, 19.0897)),
     (''Seawoods'', (73.0185, 19.0142)),
     (''DY Patil Stadium'', (73.0282, 19.0446)),
     (''Central Park'', (73.0169, 19.0343)),
     (''Inorbit Mall'', (73.0169, 19.0343)),
     (''Wonder Park'', (73.0074, 19.0137)),
     (''Mini Seashore'', (73.0215, 19.0240)),
     (''Akshar Dhaam'', (72.9962, 19.1030)),
     (''Wonders Park'', (73.0074, 19.0137)),
     (''APMC Market'', (73.0166, 19.0680)),
     (''Parsik Hill'', (73.0299, 19.0303)),
     (''Palm Beach Road'', (73.0222, 19.0037)),
     (''Jewel of Navi Mumbai'', (73.0173, 19.0340)),
     (''Sagar Vihar'', (73.0083, 19.0633)),
     (''Golf Course'', (73.0081, 19.0157)),
     (''Nerul Balaji Temple'', (73.0206, 19.0377)),
     (''Flamingo Sanctuary'', (73.0165, 19.0380)),
     (''Science Centre'', (73.0174, 19.0390)),
     (''Raghuleela Mall'', (73.0077, 19.0720)),
     (''Belapur Fort'', (73.0358, 19.0235))]"

definition Object_keys :: "(string \<times> 'v) list \<Rightarrow> string list" where
  "Object_keys obj = map fst obj"

text \<open>
  The table is a plain object, so \<open>locationCoordinates[name]\<close> is a property read: an own
  key gives its coordinate, and a name that is not an own key is looked up on
  \<open>Object.prototype\<close>, whose members (functions, and the prototype object itself for
  \<open>__proto__\<close>) are all truthy. Every other name reads as \<open>undefined\<close>, which is
  \<open>None\<close> here.
\<close>

definition Object_prototype :: "string list" where
  "Object_prototype =
    [''constructor'', ''hasOwnProperty'', ''isPrototypeOf'', ''propertyIsEnumerable'',
     ''toLocaleString'', ''toString'', ''valueOf'', ''__proto__'',
     ''__defineGetter__'', ''__defineSetter__'', ''__lookupGetter__'', ''__lookupSetter__'']"

datatype property = Own "real \<times> real" | Inherited string

definition getProperty :: "(string \<times> (real \<times> real)) list \<Rightarrow> string \<Rightarrow> property option" where
  "getProperty obj name =
     (case map_of obj name of
        Some c \<Rightarrow> Some (Own c)
      | None \<Rightarrow> if name \<in> set Object_prototype then Some (Inherited name) else None)"

section \<open>The location resolver\<close>

text \<open>
  \<open>Math.random()\<close> is an external source of numbers in \<open>[0, 1)\<close>: the sequence of its
  results and the number of draws made so far.
\<close>

type_synonym random_source = "(nat \<Rightarrow> real) \<times> nat"

definition Math_random :: "random_source \<Rightarrow> real \<times> random_source" where
  "Math_random rnd = (fst rnd (snd rnd), (fst rnd, Suc (snd rnd)))"

definition randomOffset :: "random_source \<Rightarrow> real \<times> random_source" where
  "randomOffset rnd = (case Math_random rnd of (r, rnd') \<Rightarrow> ((r - 0.5) * 0.02, rnd'))"

definition partialMatch :: "string \<Rightarrow> string \<Rightarrow> bool" where
  "partialMatch location key \<longleftrightarrow>
     js_includes (toLowerCase location) (toLowerCase key) \<or>
     js_includes (toLowerCase key) (toLowerCase location)"

definition fallback :: "random_source \<Rightarrow> property option \<times> random_source" where
  "fallback rnd =
     (case randomOffset rnd of (dx, rnd1) \<Rightarrow>
      case randomOffset rnd1 of (dy, rnd2) \<Rightarrow>
        (Some (Own (73.0169 + dx, 19.0330 + dy)), rnd2))"

definition resolve :: "random_source \<Rightarrow> string \<Rightarrow> property option \<times> random_source" where
  "resolve rnd location =
     (case getProperty locationCoordinates location of
        Some v \<Rightarrow> (Some v, rnd)
      | None \<Rightarrow>
          (case find (partialMatch location) (Object_keys locationCoordinates) of
             Some locationKey \<Rightarrow> (getProperty locationCoordinates locationKey, rnd)
           | None \<Rightarrow> fallback rnd))"

section \<open>The marker builder of ItineraryMap\<close>

record ItineraryActivity =
  time :: string
  title :: string
  location :: string
  description :: string
  image_url :: "string option"
  category :: string

record ItineraryDay =
  day :: int
  activities :: "ItineraryActivity list"

text \<open>
  A day number is a JavaScript number; the data model makes it an integer. \<open>%\<close> is the
  remainder that takes the sign of the dividend, and an array read outside the array
  is \<open>undefined\<close> (\<open>None\<close>).
\<close>

definition js_rem :: "int \<Rightarrow> int \<Rightarrow> int" where
  "js_rem a b = sgn a * (\<bar>a\<bar> mod \<bar>b\<bar>)"

definition dayColors :: "string list" where
  "dayColors = [''#3B82F6'', ''#10B981'', ''#F59E0B'', ''#EF4444'', ''#8B5CF6'', ''#EC4899'', ''#06B6D4'']"

definition array_get :: "'a list \<Rightarrow> int \<Rightarrow> 'a option" where
  "array_get xs i = (if 0 \<le> i \<and> i < int (length xs) then Some (xs ! nat i) else None)"

definition dayColor :: "int \<Rightarrow> string option" where
  "dayColor d = array_get dayColors (js_rem (d - 1) (int (length dayColors)))"

text \<open>
  \<open>coordinates[0]\<close> and \<open>coordinates[1]\<close>: the components of a coordinate pair, and
  \<open>undefined\<close> on a member inherited from \<open>Object.prototype\<close>.
\<close>

fun longitude :: "property \<Rightarrow> real option" where
  "longitude (Own c) = Some (fst c)"
| "longitude (Inherited n) = None"

fun latitude :: "property \<Rightarrow> real option" where
  "latitude (Own c) = Some (snd c)"
| "latitude (Inherited n) = None"

record marker =
  latlng :: "real \<times> real"
  icon_color :: "string option"
  icon_label :: int
  popup_title :: string
  popup_time :: string
  popup_day :: int
  popup_location :: string

text \<open>
  \<open>L.marker([lat, lng], ...)\<close> is Leaflet's: it throws on a component that is not a
  number, and the exception leaves both \<open>forEach\<close> loops for the \<open>catch\<close> of the
  render attempt. \<open>thrown\<close> holds its message; the markers put on the map before it stay.
\<close>

record build =
  markers :: "marker list"
  rng :: random_source
  thrown :: "string option"

definition L_marker :: "real option \<Rightarrow> real option \<Rightarrow> string + (real \<times> real)" where
  "L_marker lat lng =
     (case (lat, lng) of
        (Some a, Some b) \<Rightarrow> Inr (a, b)
      | _ \<Rightarrow> Inl ''Invalid LatLng object: (undefined, undefined)'')"

definition addActivity :: "ItineraryDay \<Rightarrow> string option \<Rightarrow> build \<Rightarrow> ItineraryActivity \<Rightarrow> build" where
  "addActivity d color b activity =
     (if thrown b \<noteq> None then b
      else
        (case resolve (rng b) (location activity) of
           (None, rnd') \<Rightarrow> b\<lparr>rng := rnd'\<rparr>
         | (Some coordinates, rnd') \<Rightarrow>
             (case L_marker (latitude coordinates) (longitude coordinates) of
                Inl msg \<Rightarrow> b\<lparr>rng := rnd', thrown := Some msg\<rparr>
              | Inr ll \<Rightarrow>
                  b\<lparr>rng := rnd',
                    markers := markers b @
                      [\<lparr>latlng = ll, icon_color = color, icon_label = day d,
                        popup_title = title activity, popup_time = time activity,
                        popup_day = day d, popup_location = location activity\<rparr>]\<rparr>)))"

definition addDay :: "build \<Rightarrow> ItineraryDay \<Rightarrow> build" where
  "addDay b d = foldl (addActivity d (dayColor (day d))) b (activities d)"

definition addMarkers :: "random_source \<Rightarrow> ItineraryDay list \<Rightarrow> build" where
  "addMarkers r itinerary = foldl addDay \<lparr>markers = [], rng = r, thrown = None\<rparr> itinerary"

section \<open>The lifecycle of the map instance\<close>

text \<open>
  The component keeps the Leaflet map in the ref \<open>mapInstance\<close>. \<open>liveMaps\<close> is what
  Leaflet holds: the maps created by \<open>L.map\<close> and not yet removed, named by the order of
  their creation. The events are those of the host: a render with the props of the
  moment (it cleans up and re-runs the effect that schedules the render attempt, whose
  dependency \<open>locations\<close> is a new array at every render, and runs the closing effect when
  \<open>isOpen\<close> changed), the load of the Leaflet script that the mounted component
  requested, the firing of the pending timer (with whether the container is in the
  document, and the message of the error if \<open>L.map\<close> throws one), and the unmounting of
  the component. The tile layer is added to the new map and changes nothing here;
  \<open>onMap\<close> holds the markers put on the map created last, and \<open>boundsFitted\<close> whether
  \<open>fitBounds\<close> was called for it.
\<close>

datatype phase = NotMounted | Mounted | Unmounted

record map_component =
  phase :: phase
  isOpen :: bool
  itinerary :: "ItineraryDay list"
  leafletLoaded :: bool
  mapInstance :: "nat option"
  liveMaps :: "nat list"
  mapsCreated :: nat
  timeoutPending :: bool
  map_error :: "string option"
  mapLoaded :: bool
  random :: random_source
  onMap :: "marker list"
  boundsFitted :: bool

datatype event =
    Render bool "ItineraryDay list"
  | ScriptLoaded
  | Timeout bool "string option"
  | Unmount

definition initial :: "random_source \<Rightarrow> map_component" where
  "initial r =
     \<lparr>phase = NotMounted, isOpen = False, itinerary = [], leafletLoaded = False,
      mapInstance = None, liveMaps = [], mapsCreated = 0, timeoutPending = False,
      map_error = None, mapLoaded = False, random = r, onMap = [], boundsFitted = False\<rparr>"

definition removeMap :: "map_component \<Rightarrow> map_component" where
  "removeMap s =
     (case mapInstance s of
        None \<Rightarrow> s
      | Some m \<Rightarrow> s\<lparr>liveMaps := removeAll m (liveMaps s), mapInstance := None\<rparr>)"

definition initEffect :: "map_component \<Rightarrow> map_component" where
  "initEffect s =
     (if \<not> isOpen s \<or> \<not> leafletLoaded s then s
      else s\<lparr>map_error := None, timeoutPending := True\<rparr>)"

definition closeEffect :: "map_component \<Rightarrow> map_component" where
  "closeEffect s = (if \<not> isOpen s \<and> mapInstance s \<noteq> None then removeMap s else s)"

definition render :: "bool \<Rightarrow> ItineraryDay list \<Rightarrow> map_component \<Rightarrow> map_component" where
  "render opn itin s =
     (case phase s of
        Unmounted \<Rightarrow> s
      | NotMounted \<Rightarrow>
          closeEffect (initEffect (s\<lparr>phase := Mounted, isOpen := opn, itinerary := itin\<rparr>))
      | Mounted \<Rightarrow>
          (let s1 = initEffect (s\<lparr>timeoutPending := False, isOpen := opn, itinerary := itin\<rparr>)
           in if opn \<noteq> isOpen s then closeEffect s1 else s1))"

definition createMap :: "map_component \<Rightarrow> map_component" where
  "createMap s =
     (let s1 = s\<lparr>liveMaps := liveMaps s @ [mapsCreated s],
                  mapInstance := Some (mapsCreated s),
                  mapsCreated := Suc (mapsCreated s)\<rparr>;
          b = addMarkers (random s1) (itinerary s1);
          s2 = s1\<lparr>random := rng b, onMap := markers b\<rparr>
      in case thrown b of
           Some msg \<Rightarrow> s2\<lparr>map_error := Some (''Could not load the map: '' @ msg)\<rparr>
         | None \<Rightarrow> s2\<lparr>boundsFitted := (markers b \<noteq> []), mapLoaded := True\<rparr>)"

definition timeout :: "bool \<Rightarrow> string option \<Rightarrow> map_component \<Rightarrow> map_component" where
  "timeout container L_map_throws s =
     (if phase s \<noteq> Mounted \<or> \<not> timeoutPending s then s
      else
        (let s0 = s\<lparr>timeoutPending := False\<rparr> in
         if \<not> container then s0\<lparr>map_error := Some ''Map container not found''\<rparr>
         else
           (let s1 = (if mapInstance s0 \<noteq> None then removeMap s0 else s0) in
            case L_map_throws of
              None \<Rightarrow> createMap s1
            | Some msg \<Rightarrow> s1\<lparr>map_error := Some (''Could not load the map: '' @ msg)\<rparr>)))"

definition unmount :: "map_component \<Rightarrow> map_component" where
  "unmount s =
     (if phase s \<noteq> Mounted then s
      else (removeMap s)\<lparr>timeoutPending := False, phase := Unmounted\<rparr>)"

fun step :: "map_component \<Rightarrow> event \<Rightarrow> map_component" where
  "step s (Render opn itin) = render opn itin s"
| "step s ScriptLoaded = (if phase s = NotMounted then s else s\<lparr>leafletLoaded := True\<rparr>)"
| "step s (Timeout container L_map_throws) = timeout container L_map_throws s"
| "step s Unmount = unmount s"

definition run :: "random_source \<Rightarrow> event list \<Rightarrow> map_component" where
  "run r evs = foldl step (initial r) evs"

section \<open>The paginator of downloadItineraryAsPdf\<close>

text \<open>
  The document is the sequence of calls made on the jsPDF object. \<open>paginate\<close> is the part
  of \<open>downloadItineraryAsPdf\<close> that places the captured image, for a scaled image
  height \<open>imgHeight\<close> in millimetres: the first placement at \<open>position = 30\<close>, then the
  \<open>while\<close> loop on \<open>heightLeft\<close>.
\<close>

datatype pdf_call =
    AddImage real real real real
  | AddPage

definition imgWidth :: real where
  "imgWidth = 210"

definition pageHeight :: real where
  "pageHeight = 295"

function addPages :: "real \<Rightarrow> real \<Rightarrow> pdf_call list" where
  "addPages imgHeight heightLeft =
     (if heightLeft > 0
      then AddPage # AddImage 0 (0 - (pageHeight - 30)) imgWidth imgHeight
             # addPages imgHeight (heightLeft - pageHeight)
      else [])"
  by pat_completeness auto
termination
proof (relation "measure (\<lambda>(imgHeight, heightLeft). nat \<lceil>heightLeft / 295\<rceil>)")
  show "wf (measure (\<lambda>(imgHeight, heightLeft). nat \<lceil>heightLeft / 295\<rceil>))"
    by simp
next
  fix imgHeight heightLeft :: real
  assume pos: "0 < heightLeft"
  have "(heightLeft - 295) / 295 = heightLeft / 295 - 1"
    by (simp add: diff_divide_distrib)
  then have "\<lceil>(heightLeft - 295) / 295\<rceil> = \<lceil>heightLeft / 295\<rceil> - 1"
    by (simp only: ceiling_diff_one)
  moreover from pos have "0 < \<lceil>heightLeft / 295\<rceil>"
    by simp
  ultimately show "((imgHeight, heightLeft - pageHeight), (imgHeight, heightLeft))
      \<in> measure (\<lambda>(imgHeight, heightLeft). nat \<lceil>heightLeft / 295\<rceil>)"
    by (simp add: pageHeight_def)
qed

declare addPages.simps [simp del]

definition paginate :: "real \<Rightarrow> pdf_call list" where
  "paginate imgHeight =
     AddImage 0 30 imgWidth imgHeight # addPages imgHeight (imgHeight - (pageHeight - 30))"

fun pageCount :: "pdf_call list \<Rightarrow> nat" where
  "pageCount [] = 1"
| "pageCount (AddPage # calls) = Suc (pageCount calls)"
| "pageCount (AddImage x y w h # calls) = pageCount calls"

fun offsets :: "pdf_call list \<Rightarrow> real list" where
  "offsets [] = []"
| "offsets (AddPage # calls) = offsets calls"
| "offsets (AddImage x y w h # calls) = y # offsets calls"

section \<open>The weather component\<close>

text \<open>
  A condition code is a number of the weather service's payload; the service's codes
  are integers. The category of a code is the icon the component shows for it.
\<close>

datatype icon =
  CloudLightning | CloudDrizzle | CloudRain | Snowflake | CloudFog | Sun | CloudSun | Cloud

definition getWeatherIcon :: "int \<Rightarrow> icon" where
  "getWeatherIcon weatherId =
     (if weatherId \<ge> 200 \<and> weatherId < 300 then CloudLightning
      else if weatherId \<ge> 300 \<and> weatherId < 400 then CloudDrizzle
      else if weatherId \<ge> 500 \<and> weatherId < 600 then CloudRain
      else if weatherId \<ge> 600 \<and> weatherId < 700 then Snowflake
      else if weatherId \<ge> 700 \<and> weatherId < 800 then CloudFog
      else if weatherId = 800 then Sun
      else if weatherId > 800 then CloudSun
      else Cloud)"

definition toUpperCase_char :: "char \<Rightarrow> char" where
  "toUpperCase_char c =
     (case map_of (zip ''abcdefghijklmnopqrstuvwxyz'' ''ABCDEFGHIJKLMNOPQRSTUVWXYZ'') c of
        Some u \<Rightarrow> u
      | None \<Rightarrow> c)"

definition getWeatherCondition :: "int \<Rightarrow> string \<Rightarrow> string" where
  "getWeatherCondition weatherId descr = map toUpperCase_char (take 1 descr) @ drop 1 descr"

definition Math_round :: "real \<Rightarrow> int" where
  "Math_round x = \<lfloor>x + 1 / 2\<rfloor>"

record WeatherData =
  condition :: string
  temperature :: int
  humidity :: real
  windSpeed :: int
  icon :: icon

record toast =
  toast_title :: string
  toast_description :: string
  toast_variant :: "string option"

record weather_payload =
  weather_id :: int
  weather_description :: string
  main_temp :: real
  main_humidity :: real
  wind_speed :: real

text \<open>
  What the request of \<open>fetchWeatherData\<close> comes back with: \<open>fetch\<close> rejects, or it
  gives a response with its \<open>ok\<close> flag and its body, \<open>None\<close> for a body that is not JSON
  or lacks the fields read (either throws inside the \<open>try\<close>).
\<close>

datatype fetched = Rejected | Response bool "weather_payload option"

record weather_component =
  weather :: "WeatherData option"
  weather_loading :: bool
  weather_error :: "string option"
  weather_toasts :: "toast list"

definition weather_initial :: weather_component where
  "weather_initial =
     \<lparr>weather = None, weather_loading = True, weather_error = None, weather_toasts = []\<rparr>"

definition fetchFailed :: "string \<Rightarrow> weather_component \<Rightarrow> weather_component" where
  "fetchFailed loc s =
     s\<lparr>weather_error := Some (''Could not fetch weather data for '' @ loc),
       weather_loading := False,
       weather_toasts := weather_toasts s @
         [\<lparr>toast_title = ''Weather data error'',
           toast_description = ''Could not load weather for '' @ loc @ ''. Using default data.'',
           toast_variant = Some ''destructive''\<rparr>],
       weather := Some \<lparr>condition = ''Unknown'', temperature = 25, humidity = 60,
                        windSpeed = 10, icon = Cloud\<rparr>\<rparr>"

definition fetchWeatherData :: "string \<Rightarrow> fetched \<Rightarrow> weather_component \<Rightarrow> weather_component" where
  "fetchWeatherData loc res s =
     (case res of
        Rejected \<Rightarrow> fetchFailed loc s
      | Response ok body \<Rightarrow>
          (if \<not> ok then fetchFailed loc s
           else
             (case body of
                None \<Rightarrow> fetchFailed loc s
              | Some data \<Rightarrow>
                  s\<lparr>weather := Some
                      \<lparr>condition = getWeatherCondition (weather_id data) (weather_description data),
                       temperature = Math_round (main_temp data),
                       humidity = main_humidity data,
                       windSpeed = Math_round (wind_speed data * 3.6),
                       icon = getWeatherIcon (weather_id data)\<rparr>,
                    weather_loading := False\<rparr>)))"

definition weatherEffect :: "string \<Rightarrow> fetched \<Rightarrow> weather_component \<Rightarrow> weather_component" where
  "weatherEffect loc res s =
     fetchWeatherData loc res (s\<lparr>weather_loading := True, weather_error := None\<rparr>)"

section \<open>The data-access hook useItinerary\<close>

record SavedItinerary =
  saved_id :: string
  saved_title :: string
  days :: int
  start_date :: "string option"
  pace :: "string option"
  budget :: "string option"
  interests :: "string list option"
  transportation :: "string option"
  include_food :: "bool option"
  created_at :: string
  updated_at :: string

text \<open>
  The argument \<open>itineraryData\<close> of the save and update operations; \<open>form_start_date\<close> is
  the ISO string of its optional date.
\<close>

record itineraryData =
  form_title :: string
  form_days :: int
  form_start_date :: "string option"
  form_pace :: string
  form_budget :: string
  form_interests :: "string list"
  form_transportation :: string
  form_include_food :: bool

record activity_row =
  itinerary_id :: string
  row_day :: int
  row_time :: string
  row_title :: string
  row_location :: string
  row_description :: "string option"
  row_image :: "string option"
  row_category :: "string option"

text \<open>
  The backend is the external collaborator. A call on the \<open>supabase\<close> client is a
  request; the hook's state records the requests it has issued, in order, and the
  backend's answer to a request is given by the environment. An answer carries either
  an error message or the data, which may be \<open>null\<close>.
\<close>

datatype request =
    SelectItineraries string
  | SelectItinerary string string
  | SelectActivities string
  | DeleteItinerary string string
  | InsertItinerary string itineraryData
  | InsertActivities "activity_row list"
  | UpdateItinerary string string itineraryData string
  | DeleteActivities string

datatype answer =
    Failure string
  | Itineraries "SavedItinerary list option"
  | Itinerary "SavedItinerary option"
  | Activities "activity_row list option"
  | NoData

record hook =
  itineraries :: "SavedItinerary list"
  loading :: bool
  hook_error :: "string option"
  toasts :: "toast list"
  requests :: "request list"

definition destructive :: "string \<Rightarrow> string \<Rightarrow> toast" where
  "destructive t d = \<lparr>toast_title = t, toast_description = d, toast_variant = Some ''destructive''\<rparr>"

definition notice :: "string \<Rightarrow> string \<Rightarrow> toast" where
  "notice t d = \<lparr>toast_title = t, toast_description = d, toast_variant = None\<rparr>"

definition show_toast :: "toast \<Rightarrow> hook \<Rightarrow> hook" where
  "show_toast t s = s\<lparr>toasts := toasts s @ [t]\<rparr>"

definition send :: "request \<Rightarrow> hook \<Rightarrow> hook" where
  "send r s = s\<lparr>requests := requests s @ [r]\<rparr>"

text \<open>\<open>a || b\<close> on strings: the empty string is falsy.\<close>

definition or_else :: "string \<Rightarrow> string \<Rightarrow> string" where
  "or_else a b = (if a = [] then b else a)"

definition or_null :: "string \<Rightarrow> string option" where
  "or_null a = (if a = [] then None else Some a)"

definition fetchItineraries :: "string option \<Rightarrow> (request \<Rightarrow> answer) \<Rightarrow> hook \<Rightarrow> hook" where
  "fetchItineraries user supabase s =
     (case user of
        None \<Rightarrow> s\<lparr>itineraries := [], loading := False\<rparr>
      | Some uid \<Rightarrow>
          (let s1 = send (SelectItineraries uid) (s\<lparr>loading := True, hook_error := None\<rparr>) in
           case supabase (SelectItineraries uid) of
             Failure msg \<Rightarrow>
               (show_toast (destructive ''Error fetching itineraries'' msg)
                  (s1\<lparr>hook_error := Some msg\<rparr>))\<lparr>loading := False\<rparr>
           | Itineraries (Some rows) \<Rightarrow> s1\<lparr>itineraries := rows, loading := False\<rparr>
           | _ \<Rightarrow> s1\<lparr>itineraries := [], loading := False\<rparr>))"

definition to_activity :: "activity_row \<Rightarrow> ItineraryActivity" where
  "to_activity a =
     \<lparr>time = row_time a, title = row_title a, location = row_location a,
      description = (case row_description a of None \<Rightarrow> [] | Some d \<Rightarrow> d),
      image_url = row_image a,
      category = (case row_category a of None \<Rightarrow> [] | Some c \<Rightarrow> c)\<rparr>"

definition push_activity :: "ItineraryDay list \<Rightarrow> activity_row \<Rightarrow> ItineraryDay list" where
  "push_activity ds a =
     (if row_day a \<in> set (map day ds)
      then map (\<lambda>d. if day d = row_day a
                     then d\<lparr>activities := activities d @ [to_activity a]\<rparr> else d) ds
      else ds @ [\<lparr>day = row_day a, activities = [to_activity a]\<rparr>])"

definition format_days :: "activity_row list \<Rightarrow> ItineraryDay list" where
  "format_days rows = sort_key day (foldl push_activity [] rows)"

definition fetchItineraryById ::
  "string option \<Rightarrow> (request \<Rightarrow> answer) \<Rightarrow> string \<Rightarrow> hook
     \<Rightarrow> (SavedItinerary option \<times> ItineraryDay list) option \<times> hook" where
  "fetchItineraryById user supabase ident s =
     (case user of
        None \<Rightarrow> (None, s)
      | Some uid \<Rightarrow>
          (let s1 = send (SelectItinerary ident uid) (s\<lparr>loading := True, hook_error := None\<rparr>);
               failed = (\<lambda>msg st.
                 (None, (show_toast (destructive ''Error fetching itinerary'' msg)
                           (st\<lparr>hook_error := Some msg\<rparr>))\<lparr>loading := False\<rparr>))
           in case supabase (SelectItinerary ident uid) of
                Failure msg \<Rightarrow> failed msg s1
              | itineraryData \<Rightarrow>
                  (let s2 = send (SelectActivities ident) s1;
                       details = (case itineraryData of Itinerary d \<Rightarrow> d | _ \<Rightarrow> None)
                   in case supabase (SelectActivities ident) of
                        Failure msg \<Rightarrow> failed msg s2
                      | Activities (Some rows) \<Rightarrow>
                          (Some (details, format_days rows), s2\<lparr>loading := False\<rparr>)
                      | _ \<Rightarrow> (Some (details, []), s2\<lparr>loading := False\<rparr>))))"

definition deleteItinerary ::
  "string option \<Rightarrow> (request \<Rightarrow> answer) \<Rightarrow> string \<Rightarrow> hook \<Rightarrow> bool \<times> hook" where
  "deleteItinerary user supabase ident s =
     (case user of
        None \<Rightarrow> (False, s)
      | Some uid \<Rightarrow>
          (let s1 = send (DeleteItinerary ident uid) (s\<lparr>loading := True, hook_error := None\<rparr>) in
           case supabase (DeleteItinerary ident uid) of
             Failure msg \<Rightarrow>
               (False, (show_toast (destructive ''Error deleting itinerary'' msg)
                          (s1\<lparr>hook_error := Some msg\<rparr>))\<lparr>loading := False\<rparr>)
           | _ \<Rightarrow>
               (True, (show_toast
                         (notice ''Itinerary deleted'' ''Your itinerary has been deleted successfully.'')
                         (s1\<lparr>itineraries := filter (\<lambda>item. saved_id item \<noteq> ident) (itineraries s)\<rparr>))
                      \<lparr>loading := False\<rparr>)))"

definition activitiesData :: "string \<Rightarrow> ItineraryDay list \<Rightarrow> activity_row list" where
  "activitiesData ident itin =
     concat (map (\<lambda>d. map (\<lambda>activity.
        \<lparr>itinerary_id = ident, row_day = day d, row_time = time activity,
         row_title = title activity, row_location = location activity,
         row_description = or_null (description activity),
         row_image = (case image_url activity of None \<Rightarrow> None | Some i \<Rightarrow> or_null i),
         row_category = or_null (category activity)\<rparr>) (activities d)) itin)"

definition saveItinerary ::
  "string option \<Rightarrow> (request \<Rightarrow> answer) \<Rightarrow> itineraryData \<Rightarrow> ItineraryDay list \<Rightarrow> hook
     \<Rightarrow> bool \<times> hook" where
  "saveItinerary user supabase dat itin s =
     (case user of
        None \<Rightarrow>
          (False, show_toast (destructive ''Authentication required''
                                ''Please sign in to save your itinerary.'') s)
      | Some uid \<Rightarrow>
          (let s1 = send (InsertItinerary uid dat) (s\<lparr>loading := True\<rparr>);
               failed = (\<lambda>msg st.
                 (False, (show_toast (destructive ''Error saving itinerary''
                            (or_else msg ''There was an error saving your itinerary.'')) st)
                         \<lparr>loading := False\<rparr>))
           in case supabase (InsertItinerary uid dat) of
                Failure msg \<Rightarrow> failed msg s1
              | Itinerary (Some savedItinerary) \<Rightarrow>
                  (let rows = activitiesData (saved_id savedItinerary) itin;
                       s2 = send (InsertActivities rows) s1
                   in case supabase (InsertActivities rows) of
                        Failure msg \<Rightarrow> failed msg s2
                      | _ \<Rightarrow>
                          (True, (show_toast
                                    (notice ''Itinerary saved''
                                       ''Your itinerary has been saved successfully.'')
                                    (fetchItineraries user supabase s2))\<lparr>loading := False\<rparr>))
              | _ \<Rightarrow> (False, s1\<lparr>loading := False\<rparr>)))"

definition updateItinerary ::
  "string option \<Rightarrow> (request \<Rightarrow> answer) \<Rightarrow> string \<Rightarrow> string \<Rightarrow> itineraryData
     \<Rightarrow> ItineraryDay list \<Rightarrow> hook \<Rightarrow> bool \<times> hook" where
  "updateItinerary user supabase now ident dat itin s =
     (case user of
        None \<Rightarrow>
          (False, show_toast (destructive ''Authentication required''
                                ''Please sign in to update your itinerary.'') s)
      | Some uid \<Rightarrow>
          (let s1 = send (UpdateItinerary ident uid dat now) (s\<lparr>loading := True\<rparr>);
               failed = (\<lambda>msg st.
                 (False, (show_toast (destructive ''Error updating itinerary''
                            (or_else msg ''There was an error updating your itinerary.'')) st)
                         \<lparr>loading := False\<rparr>))
           in case supabase (UpdateItinerary ident uid dat now) of
                Failure msg \<Rightarrow> failed msg s1
              | _ \<Rightarrow>
                  (let s2 = send (DeleteActivities ident) s1 in
                   case supabase (DeleteActivities ident) of
                     Failure msg \<Rightarrow> failed msg s2
                   | _ \<Rightarrow>
                       (let rows = activitiesData ident itin;
                            s3 = send (InsertActivities rows) s2
                        in case supabase (InsertActivities rows) of
                             Failure msg \<Rightarrow> failed msg s3
                           | _ \<Rightarrow>
                               (True, (show_toast
                                         (notice ''Itinerary updated''
                                            ''Your itinerary has been updated successfully.'')
                                         (fetchItineraries user supabase s3))
                                      \<lparr>loading := False\<rparr>)))))"

section \<open>Test values\<close>

text \<open>A \<open>Math.random\<close> that returns the same number at every draw.\<close>

definition constant_source :: "real \<Rightarrow> random_source" where
  "constant_source r = (\<lambda>n. r, 0)"

definition activity_at :: "string \<Rightarrow> ItineraryActivity" where
  "activity_at loc =
     \<lparr>time = ''09:00'', title = ''Visit'', location = loc, description = [],
      image_url = None, category = ''sight''\<rparr>"

text \<open>ASCII whitespace: space, tab, line feed, vertical tab, form feed, carriage return.\<close>

definition whitespace :: "char list" where
  "whitespace = [CHR '' '', CHR 0x09, CHR 0x0A, CHR 0x0B, CHR 0x0C, CHR 0x0D]"

definition whitespace_only :: "string \<Rightarrow> bool" where
  "whitespace_only s = list_all (\<lambda>c. c \<in> set whitespace) s"

text \<open>The requests that fail in \<open>fetchWeatherData\<close>: everything but an ok response with a readable body.\<close>

fun fetch_failed :: "fetched \<Rightarrow> bool" where
  "fetch_failed Rejected = True"
| "fetch_failed (Response ok None) = True"
| "fetch_failed (Response ok (Some data)) = (\<not> ok)"

text \<open>
  Every marker carries the colour of the day it is labelled with, and what a marker
  shows of its activity: the day, the colour and the location text.
\<close>

definition coloured :: "build \<Rightarrow> bool" where
  "coloured b = list_all (\<lambda>m. icon_color m = dayColor (icon_label m)) (markers b)"

definition tags :: "build \<Rightarrow> (int \<times> string option \<times> string) list" where
  "tags b = map (\<lambda>m. (icon_label m, icon_color m, popup_location m)) (markers b)"

definition two_days :: "ItineraryDay list" where
  "two_days = [\<lparr>day = 1, activities = [activity_at ''Vashi'']\<rparr>,
               \<lparr>day = 8, activities = [activity_at ''Nerul'', activity_at ''Vashi'']\<rparr>]"

text \<open>
  The ref owns what Leaflet holds: with no map in \<open>mapInstance\<close> no map is live, and
  otherwise the only live map is the one in \<open>mapInstance\<close>, created earlier.
\<close>

definition owned :: "map_component \<Rightarrow> bool" where
  "owned s \<longleftrightarrow>
     liveMaps s = (case mapInstance s of None \<Rightarrow> [] | Some m \<Rightarrow> [m]) \<and>
     list_all (\<lambda>m. m < mapsCreated s) (liveMaps s)"

text \<open>Open, load the script, render, let the timer fire, hide, show again.\<close>

definition hide_then_show :: "event list" where
  "hide_then_show =
     [Render True [], ScriptLoaded, Render True [], Timeout True None,
      Render False [], Render True []]"

section \<open>Properties of the location resolver\<close>

text \<open>\<open>js_includes\<close> is the contiguous-substring relation.\<close>

lemma js_includes_sublist: "js_includes hay needle \<longleftrightarrow> sublist needle hay"
  by (induction hay) (auto simp: sublist_Cons_right)

lemma js_includes_set: "js_includes hay needle \<Longrightarrow> set needle \<subseteq> set hay"
  by (auto simp: js_includes_sublist dest: set_mono_sublist)

lemma keys_not_whitespace:
  "list_all (\<lambda>k. \<not> whitespace_only (toLowerCase k)) (Object_keys locationCoordinates)"
  by code_simp

lemma keys_not_prototype:
  "list_all (\<lambda>k. k \<notin> set Object_prototype) (Object_keys locationCoordinates)"
  by code_simp

lemma whitespace_lower: "list_all (\<lambda>c. toLowerCase_char c = c) whitespace"
  by code_simp

lemma toLowerCase_char_whitespace: "c \<in> set whitespace \<Longrightarrow> toLowerCase_char c = c"
  using whitespace_lower by (simp only: list_all_iff)

lemma toLowerCase_whitespace: "whitespace_only s \<Longrightarrow> toLowerCase s = s"
  by (induction s) (simp_all add: whitespace_only_def toLowerCase_def toLowerCase_char_whitespace)

lemma whitespace_not_prototype: "whitespace_only s \<Longrightarrow> s \<notin> set Object_prototype"
  by (auto simp: whitespace_only_def whitespace_def Object_prototype_def)

lemma whitespace_not_key:
  assumes "whitespace_only s"
  shows "s \<notin> set (Object_keys locationCoordinates)"
proof
  assume "s \<in> set (Object_keys locationCoordinates)"
  with keys_not_whitespace have "\<not> whitespace_only (toLowerCase s)"
    by (simp add: list_all_iff)
  with assms show False
    by (simp add: toLowerCase_whitespace)
qed

lemma getProperty_None:
  assumes "name \<notin> set (Object_keys obj)" and "name \<notin> set Object_prototype"
  shows "getProperty obj name = None"
proof -
  from assms(1) have "map_of obj name = None"
    by (simp add: Object_keys_def map_of_eq_None_iff)
  with assms(2) show ?thesis
    by (simp add: getProperty_def)
qed

lemma getProperty_key:
  "key \<in> set (Object_keys obj) \<Longrightarrow> \<exists>c. map_of obj key = Some c \<and> getProperty obj key = Some (Own c)"
proof -
  assume "key \<in> set (Object_keys obj)"
  then have "map_of obj key \<noteq> None"
    by (simp add: Object_keys_def map_of_eq_None_iff)
  then show ?thesis
    by (auto simp: getProperty_def)
qed

lemma whitespace_partialMatch:
  assumes ws: "whitespace_only s" and key: "key \<in> set (Object_keys locationCoordinates)"
  shows "partialMatch s key = js_includes (toLowerCase key) (toLowerCase s)"
proof -
  have "\<not> js_includes (toLowerCase s) (toLowerCase key)"
  proof
    assume "js_includes (toLowerCase s) (toLowerCase key)"
    then have "set (toLowerCase key) \<subseteq> set s"
      using ws by (auto dest: js_includes_set simp: toLowerCase_whitespace)
    moreover from ws have "set s \<subseteq> set whitespace"
      by (auto simp: whitespace_only_def list_all_iff)
    ultimately have "whitespace_only (toLowerCase key)"
      by (auto simp: whitespace_only_def list_all_iff)
    with keys_not_whitespace key show False
      by (simp add: list_all_iff)
  qed
  then show ?thesis
    by (simp add: partialMatch_def)
qed

lemma resolve_whitespace:
  assumes "whitespace_only loc"
  shows "resolve rnd loc =
      (case find (\<lambda>key. js_includes (toLowerCase key) (toLowerCase loc))
                 (Object_keys locationCoordinates) of
         Some key \<Rightarrow> (getProperty locationCoordinates key, rnd)
       | None \<Rightarrow> fallback rnd)"
proof -
  have "getProperty locationCoordinates loc = None"
    using assms by (simp add: getProperty_None whitespace_not_key whitespace_not_prototype)
  moreover have "find (partialMatch loc) (Object_keys locationCoordinates) =
      find (\<lambda>key. js_includes (toLowerCase key) (toLowerCase loc)) (Object_keys locationCoordinates)"
    using assms by (intro find_cong) (simp_all add: whitespace_partialMatch)
  ultimately show ?thesis
    by (simp add: resolve_def)
qed

lemma find_first:
  "\<forall>x\<in>set pre. \<not> P x \<Longrightarrow> P y \<Longrightarrow> find P (pre @ y # post) = Some y"
  by (induction pre) simp_all

lemma resolve_exact:
  "map_of locationCoordinates loc = Some c \<Longrightarrow> resolve rnd loc = (Some (Own c), rnd)"
  by (simp add: resolve_def getProperty_def)

lemma resolve_partial:
  assumes "loc \<notin> set (Object_keys locationCoordinates)" and "loc \<notin> set Object_prototype"
    and "Object_keys locationCoordinates = pre @ key # post"
    and "\<forall>k\<in>set pre. \<not> partialMatch loc k" and "partialMatch loc key"
  shows "\<exists>c. map_of locationCoordinates key = Some c \<and> resolve rnd loc = (Some (Own c), rnd)"
proof -
  have "getProperty locationCoordinates loc = None"
    using assms(1,2) by (rule getProperty_None)
  moreover have "find (partialMatch loc) (Object_keys locationCoordinates) = Some key"
    using assms(3-5) by (simp add: find_first)
  moreover have "key \<in> set (Object_keys locationCoordinates)"
    using assms(3) by simp
  then obtain c where "map_of locationCoordinates key = Some c"
      "getProperty locationCoordinates key = Some (Own c)"
    using getProperty_key by blast
  ultimately show ?thesis
    by (simp add: resolve_def)
qed

lemma resolve_unmatched:
  assumes "loc \<notin> set (Object_keys locationCoordinates)" and "loc \<notin> set Object_prototype"
    and "\<forall>k\<in>set (Object_keys locationCoordinates). \<not> partialMatch loc k"
  shows "resolve rnd loc = fallback rnd"
proof -
  have "getProperty locationCoordinates loc = None"
    using assms(1,2) by (rule getProperty_None)
  moreover have "find (partialMatch loc) (Object_keys locationCoordinates) = None"
    using assms(3) by (simp add: find_None_iff)
  ultimately show ?thesis
    by (simp add: resolve_def)
qed

lemma fallback_bounds:
  assumes "0 \<le> fst rnd (snd rnd)" "fst rnd (snd rnd) < 1"
    and "0 \<le> fst rnd (Suc (snd rnd))" "fst rnd (Suc (snd rnd)) < 1"
  shows "\<exists>x y. fallback rnd = (Some (Own (x, y)), (fst rnd, snd rnd + 2)) \<and>
     x = 73.0169 + (fst rnd (snd rnd) - 0.5) * 0.02 \<and>
     y = 19.0330 + (fst rnd (Suc (snd rnd)) - 0.5) * 0.02 \<and>
     \<bar>x - 73.0169\<bar> \<le> 0.01 \<and> \<bar>y - 19.0330\<bar> \<le> 0.01"
proof -
  have b: "\<bar>(r - 0.5) * 0.02\<bar> \<le> 0.01" if "0 \<le> r" "r < 1" for r :: real
    using that by (simp add: abs_if)
  show ?thesis
    using b [OF assms(1,2)] b [OF assms(3,4)]
    by (simp add: fallback_def randomOffset_def Math_random_def)
qed

lemma resolve_defined: "fst (resolve rnd loc) \<noteq> None"
proof (cases "getProperty locationCoordinates loc")
  case (Some v)
  then show ?thesis by (simp add: resolve_def)
next
  case None
  show ?thesis
  proof (cases "find (partialMatch loc) (Object_keys locationCoordinates)")
    case None
    with \<open>getProperty locationCoordinates loc = None\<close> show ?thesis
      by (simp add: resolve_def fallback_def randomOffset_def Math_random_def)
  next
    case (Some key)
    then have "key \<in> set (Object_keys locationCoordinates)"
      by (auto simp: find_Some_iff)
    then obtain c where "getProperty locationCoordinates key = Some (Own c)"
      using getProperty_key by blast
    with Some \<open>getProperty locationCoordinates loc = None\<close> show ?thesis
      by (simp add: resolve_def)
  qed
qed

text \<open>
  C1 (the precedence of the resolver; it always produces a coordinate). The lemmas
  above give the precedence for every name that \<open>Object.prototype\<close> does not define:
  an own key gives its coordinate (\<open>resolve_exact\<close>), otherwise the first key in table
  order that matches in either direction (\<open>resolve_partial\<close>), otherwise the fallback
  (\<open>resolve_unmatched\<close>). For the name \<open>constructor\<close> the property read of the
  exact-match step finds the inherited member: the name is no key of the table and
  matches none, yet the resolver returns the member, which has no components, and the
  marker cannot be built.
\<close>

theorem resolve_constructor_inherited:
  "''constructor'' \<notin> set (Object_keys locationCoordinates) \<and>
   find (partialMatch ''constructor'') (Object_keys locationCoordinates) = None \<and>
   resolve rnd ''constructor'' = (Some (Inherited ''constructor''), rnd) \<and>
   L_marker (latitude (Inherited ''constructor'')) (longitude (Inherited ''constructor''))
     = Inl ''Invalid LatLng object: (undefined, undefined)''"
proof -
  have "''constructor'' \<notin> set (Object_keys locationCoordinates)"
    by code_simp
  moreover have "find (partialMatch ''constructor'') (Object_keys locationCoordinates) = None"
    by code_simp
  moreover have "getProperty locationCoordinates ''constructor'' = Some (Inherited ''constructor'')"
    by code_simp
  ultimately show ?thesis
    by (simp add: resolve_def L_marker_def)
qed

text \<open>
  C2 (an empty or whitespace-only location gets the fallback), as the code has it: the
  exact-match step finds nothing, but the substring step still runs, and such a string
  resolves to the first key of the table that contains it; the fallback is reached only
  when no key contains it.
\<close>

theorem resolve_whitespace_only:
  assumes "whitespace_only loc"
  shows "getProperty locationCoordinates loc = None \<and>
     resolve rnd loc =
      (case find (\<lambda>key. js_includes (toLowerCase key) (toLowerCase loc))
                 (Object_keys locationCoordinates) of
         Some key \<Rightarrow> (getProperty locationCoordinates key, rnd)
       | None \<Rightarrow> fallback rnd)"
  using assms
  by (simp add: resolve_whitespace getProperty_None whitespace_not_key whitespace_not_prototype)

text \<open>Two spaces are in no key: the fallback. (Witness of C2.)\<close>

theorem resolve_whitespace_only_witness:
  "whitespace_only ''  '' \<and>
   resolve (constant_source (1 / 2)) ''  '' = fallback (constant_source (1 / 2))"
proof -
  have ws: "whitespace_only ''  ''"
    by code_simp
  have none: "find (\<lambda>key. js_includes (toLowerCase key) (toLowerCase ''  ''))
      (Object_keys locationCoordinates) = None"
    by code_simp
  show ?thesis
    using ws none resolve_whitespace_only [OF ws, of "constant_source (1 / 2)"] by simp
qed

text \<open>
  The empty string is inside every key and a single space is inside \<open>Kopar Khairane\<close>:
  both get a table entry's coordinate, not the fallback. (Counterexample to C2 as stated.)
\<close>

theorem resolve_empty_counterexample:
  "whitespace_only [] \<and> whitespace_only '' '' \<and>
   resolve (constant_source 0) [] = (Some (Own (73.0071, 19.0754)), constant_source 0) \<and>
   resolve (constant_source 0) '' '' = (Some (Own (73.0071, 19.1050)), constant_source 0) \<and>
   fst (fallback (constant_source 0)) = Some (Own (73.0069, 19.0230)) \<and>
   map_of locationCoordinates ''Vashi'' = Some (73.0071, 19.0754) \<and>
   map_of locationCoordinates ''Kopar Khairane'' = Some (73.0071, 19.1050)"
proof -
  have "whitespace_only []" "whitespace_only '' ''"
    by (simp_all add: whitespace_only_def whitespace_def)
  moreover have "resolve (constant_source 0) [] = (Some (Own (73.0071, 19.0754)), constant_source 0)"
    by (simp add: resolve_def getProperty_def locationCoordinates_def Object_prototype_def
        Object_keys_def partialMatch_def toLowerCase_def)
  moreover have "resolve (constant_source 0) '' '' = (Some (Own (73.0071, 19.1050)), constant_source 0)"
  proof -
    have "getProperty locationCoordinates '' '' = None"
      by code_simp
    moreover have "find (partialMatch '' '') (Object_keys locationCoordinates) = Some ''Kopar Khairane''"
      by code_simp
    moreover have "getProperty locationCoordinates ''Kopar Khairane'' = Some (Own (73.0071, 19.1050))"
      by (simp add: getProperty_def locationCoordinates_def)
    ultimately show ?thesis
      by (simp add: resolve_def)
  qed
  moreover have "fst (fallback (constant_source 0)) = Some (Own (73.0069, 19.0230))"
    by (simp add: fallback_def randomOffset_def Math_random_def constant_source_def)
  moreover have "map_of locationCoordinates ''Vashi'' = Some (73.0071, 19.0754)"
      "map_of locationCoordinates ''Kopar Khairane'' = Some (73.0071, 19.1050)"
    by (simp_all add: locationCoordinates_def)
  ultimately show ?thesis
    by simp
qed

text \<open>
  C3 (a location with no exact and no substring match gets the default centre
  (73.0169, 19.0330) with an offset within 0.01 on each axis, drawn for that activity).
  \<open>resolve_unmatched\<close> and \<open>fallback_bounds\<close> give this for every name that
  \<open>Object.prototype\<close> does not define, with two fresh draws for each fallback. The name
  \<open>toString\<close> is no key of the table and matches none, and the resolver returns the
  inherited member, which has neither longitude nor latitude, without a draw.
\<close>

theorem resolve_toString_not_fallback:
  "''toString'' \<notin> set (Object_keys locationCoordinates) \<and>
   find (partialMatch ''toString'') (Object_keys locationCoordinates) = None \<and>
   resolve rnd ''toString'' = (Some (Inherited ''toString''), rnd) \<and>
   longitude (Inherited ''toString'') = None \<and> latitude (Inherited ''toString'') = None"
proof -
  have "''toString'' \<notin> set (Object_keys locationCoordinates)"
    by code_simp
  moreover have "find (partialMatch ''toString'') (Object_keys locationCoordinates) = None"
    by code_simp
  moreover have "getProperty locationCoordinates ''toString'' = Some (Inherited ''toString'')"
    by code_simp
  ultimately show ?thesis
    by (simp add: resolve_def)
qed

section \<open>Properties of the marker builder\<close>

lemma dayColor_positive:
  assumes "0 < d"
  shows "dayColor d = Some (dayColors ! nat ((d - 1) mod int (length dayColors)))"
proof -
  have "js_rem (d - 1) 7 = (d - 1) mod 7"
    using assms by (cases "d = 1") (simp_all add: js_rem_def)
  moreover have "0 \<le> (d - 1) mod 7" and "(d - 1) mod 7 < 7"
    by simp_all
  ultimately show ?thesis
    by (simp add: dayColor_def array_get_def dayColors_def)
qed

lemma addActivity_coloured:
  "coloured b \<Longrightarrow> coloured (addActivity d (dayColor (day d)) b a)"
  by (auto simp: coloured_def addActivity_def split: prod.splits option.splits sum.splits)

lemma addDay_coloured: "coloured b \<Longrightarrow> coloured (addDay b d)"
proof -
  have "coloured b \<Longrightarrow> coloured (foldl (addActivity d (dayColor (day d))) b as)" for as
    by (induction as arbitrary: b) (simp_all add: addActivity_coloured)
  then show "coloured b \<Longrightarrow> coloured (addDay b d)"
    by (simp add: addDay_def)
qed

lemma foldl_addDay_coloured: "coloured b \<Longrightarrow> coloured (foldl addDay b ds)"
  by (induction ds arbitrary: b) (simp_all add: addDay_coloured)

lemma addMarkers_coloured: "coloured (addMarkers r ds)"
proof -
  have "coloured \<lparr>markers = [], rng = r, thrown = None\<rparr>"
    by (simp add: coloured_def)
  then show ?thesis
    unfolding addMarkers_def by (rule foldl_addDay_coloured)
qed

lemma addActivity_thrown: "thrown b \<noteq> None \<Longrightarrow> addActivity d c b a = b"
  by (simp add: addActivity_def)

lemma foldl_addActivity_thrown: "thrown b \<noteq> None \<Longrightarrow> foldl (addActivity d c) b as = b"
  by (induction as) (simp_all add: addActivity_thrown)

lemma foldl_addDay_thrown: "thrown b \<noteq> None \<Longrightarrow> foldl addDay b ds = b"
  by (induction ds) (simp_all add: addDay_def foldl_addActivity_thrown)

lemma addActivity_tags:
  assumes "thrown (addActivity d c b a) = None"
  shows "tags (addActivity d c b a) = tags b @ [(day d, c, location a)]"
proof -
  from assms have nb: "thrown b = None"
    by (auto simp: addActivity_def split: if_splits)
  obtain v r' where res: "resolve (rng b) (location a) = (v, r')"
    by (cases "resolve (rng b) (location a)")
  with resolve_defined [of "rng b" "location a"] obtain p where v: "v = Some p"
    by auto
  from assms nb res v show ?thesis
    by (auto simp: addActivity_def tags_def split: sum.splits)
qed

lemma foldl_addActivity_tags:
  "thrown (foldl (addActivity d c) b as) = None \<Longrightarrow>
   tags (foldl (addActivity d c) b as) = tags b @ map (\<lambda>a. (day d, c, location a)) as"
proof (induction as arbitrary: b)
  case Nil
  then show ?case by simp
next
  case (Cons a as)
  have "thrown (addActivity d c b a) = None"
  proof (rule ccontr)
    assume "thrown (addActivity d c b a) \<noteq> None"
    with Cons.prems show False
      by (simp add: foldl_addActivity_thrown)
  qed
  with Cons show ?case
    by (simp add: addActivity_tags)
qed

lemma foldl_addDay_tags:
  "thrown (foldl addDay b ds) = None \<Longrightarrow>
   tags (foldl addDay b ds) =
     tags b @ concat (map (\<lambda>d. map (\<lambda>a. (day d, dayColor (day d), location a)) (activities d)) ds)"
proof (induction ds arbitrary: b)
  case Nil
  then show ?case by simp
next
  case (Cons d ds)
  have "thrown (addDay b d) = None"
  proof (rule ccontr)
    assume "thrown (addDay b d) \<noteq> None"
    with Cons.prems show False
      by (simp add: foldl_addDay_thrown)
  qed
  with Cons show ?case
    by (simp add: addDay_def foldl_addActivity_tags)
qed

lemma addMarkers_tags:
  "thrown (addMarkers r ds) = None \<Longrightarrow>
   tags (addMarkers r ds) =
     concat (map (\<lambda>d. map (\<lambda>a. (day d, dayColor (day d), location a)) (activities d)) ds)"
  using foldl_addDay_tags [of "\<lparr>markers = [], rng = r, thrown = None\<rparr>" ds]
  by (simp add: addMarkers_def tags_def)

text \<open>
  C4: for a positive day number \<open>d\<close> the colour is \<open>dayColors[(d - 1) mod 7]\<close>, so day
  1 and day 8 both get the first entry; every marker on the map has the colour of the day
  it is labelled with; and when no marker creation throws, the markers are those of the
  activities in traversal order, each with the colour of its day.
\<close>

theorem marker_colour_by_day:
  "(0 < d \<longrightarrow> dayColor d = Some (dayColors ! nat ((d - 1) mod int (length dayColors)))) \<and>
   length dayColors = 7 \<and>
   dayColor 1 = Some (dayColors ! 0) \<and> dayColor 8 = Some (dayColors ! 0) \<and>
   (\<forall>m \<in> set (markers (addMarkers r ds)). icon_color m = dayColor (icon_label m)) \<and>
   (thrown (addMarkers r ds) = None \<longrightarrow>
      tags (addMarkers r ds) =
        concat (map (\<lambda>d. map (\<lambda>a. (day d, dayColor (day d), location a)) (activities d)) ds))"
proof -
  have "dayColor 1 = Some (dayColors ! 0)" "dayColor 8 = Some (dayColors ! 0)"
    by (simp_all add: dayColor_def array_get_def dayColors_def js_rem_def)
  moreover have "\<forall>m \<in> set (markers (addMarkers r ds)). icon_color m = dayColor (icon_label m)"
    using addMarkers_coloured [of r ds] by (simp add: coloured_def list_all_iff)
  ultimately show ?thesis
    by (simp add: dayColor_positive addMarkers_tags) (simp add: dayColors_def)
qed

text \<open>Witness of C4: day 8, and the three markers of a two-day itinerary.\<close>

theorem marker_colour_by_day_witness:
  "(0::int) < 8 \<and> dayColor 8 = Some ''#3B82F6'' \<and>
   thrown (addMarkers (constant_source 0) two_days) = None \<and>
   tags (addMarkers (constant_source 0) two_days) =
     [(1, Some ''#3B82F6'', ''Vashi''), (8, Some ''#3B82F6'', ''Nerul''), (8, Some ''#3B82F6'', ''Vashi'')]"
proof -
  have t: "thrown (addMarkers (constant_source 0) two_days) = None"
    by code_simp
  have m: "markers (addMarkers (constant_source 0) two_days) \<noteq> []"
    by code_simp
  have c: "dayColor 1 = Some ''#3B82F6''" "dayColor 8 = Some ''#3B82F6''"
    by (simp_all add: dayColor_def array_get_def dayColors_def js_rem_def)
  show ?thesis
    using t m c marker_colour_by_day [of 8 "constant_source 0" two_days]
    by (simp add: two_days_def activity_at_def)
qed

section \<open>Properties of the paginator\<close>

lemma addPages_pos:
  "0 < heightLeft \<Longrightarrow>
   addPages imgHeight heightLeft =
     AddPage # AddImage 0 (- 265) 210 imgHeight # addPages imgHeight (heightLeft - 295)"
  by (subst addPages.simps) (simp add: pageHeight_def imgWidth_def)

lemma addPages_nonpos: "heightLeft \<le> 0 \<Longrightarrow> addPages imgHeight heightLeft = []"
  by (subst addPages.simps) simp

lemma ceiling_step:
  assumes pos: "0 < (h::real)"
  shows "nat \<lceil>h / 295\<rceil> = Suc (nat \<lceil>(h - 295) / 295\<rceil>)"
proof -
  define c where "c = \<lceil>h / 295\<rceil>"
  have "(h - 295) / 295 = h / 295 - 1"
    by (simp add: diff_divide_distrib)
  then have "\<lceil>(h - 295) / 295\<rceil> = \<lceil>h / 295 - 1\<rceil>"
    by (rule arg_cong)
  then have c1: "\<lceil>(h - 295) / 295\<rceil> = c - 1"
    unfolding c_def by (simp only: ceiling_diff_one)
  from pos have "0 < c"
    unfolding c_def by simp
  then have "nat c = Suc (nat (c - 1))"
    by arith
  with c1 show ?thesis
    unfolding c_def by simp
qed

lemma ceiling_nonpos: "(h::real) \<le> 0 \<Longrightarrow> nat \<lceil>h / 295\<rceil> = 0"
  by (simp add: ceiling_le_iff divide_le_0_iff)

lemma addPages_count: "pageCount (addPages imgHeight heightLeft) = 1 + nat \<lceil>heightLeft / 295\<rceil>"
proof (induction imgHeight heightLeft rule: addPages.induct)
  case (1 imgHeight heightLeft)
  show ?case
  proof (cases "heightLeft > 0")
    case True
    with 1 show ?thesis
      by (simp add: addPages_pos ceiling_step pageHeight_def)
  next
    case False
    then show ?thesis
      by (simp add: addPages_nonpos ceiling_nonpos)
  qed
qed

lemma addPages_offsets:
  "offsets (addPages imgHeight heightLeft) = replicate (nat \<lceil>heightLeft / 295\<rceil>) (- 265)"
proof (induction imgHeight heightLeft rule: addPages.induct)
  case (1 imgHeight heightLeft)
  show ?case
  proof (cases "heightLeft > 0")
    case True
    with 1 show ?thesis
      by (simp add: addPages_pos ceiling_step pageHeight_def)
  next
    case False
    then show ?thesis
      by (simp add: addPages_nonpos ceiling_nonpos)
  qed
qed

lemma paginate_offsets:
  "offsets (paginate imgHeight) = 30 # replicate (nat \<lceil>(imgHeight - 265) / 295\<rceil>) (- 265)"
  by (simp add: paginate_def addPages_offsets pageHeight_def)

text \<open>
  C5: an image of height 265 = 295 - 30 gives one page and one of height 561 = 265 + 295 + 1
  gives three; the first placement is at offset 30, the loop starts from
  \<open>heightLeft = imgHeight - (295 - 30)\<close>, adds one page while \<open>heightLeft > 0\<close> and takes
  295 off each time, so the document has \<open>1 + \<lceil>(imgHeight - 265) / 295\<rceil>\<close> pages (one page
  when the height is at most 265).
\<close>

theorem paginate_page_count:
  "pageCount (paginate 265) = 1 \<and> pageCount (paginate 561) = 3 \<and>
   paginate imgHeight =
     AddImage 0 30 210 imgHeight # addPages imgHeight (imgHeight - (295 - 30)) \<and>
   addPages imgHeight heightLeft =
     (if heightLeft > 0
      then AddPage # AddImage 0 (- (295 - 30)) 210 imgHeight # addPages imgHeight (heightLeft - 295)
      else []) \<and>
   pageCount (paginate imgHeight) = 1 + nat \<lceil>(imgHeight - (295 - 30)) / 295\<rceil>"
proof -
  have "pageCount (paginate 265) = 1" "pageCount (paginate 561) = 3"
    by (simp_all add: paginate_def pageHeight_def addPages_pos addPages_nonpos)
  moreover have "pageCount (paginate imgHeight) = 1 + nat \<lceil>(imgHeight - (295 - 30)) / 295\<rceil>"
    by (simp add: paginate_def addPages_count pageHeight_def)
  moreover have "addPages imgHeight heightLeft =
     (if heightLeft > 0
      then AddPage # AddImage 0 (- (295 - 30)) 210 imgHeight # addPages imgHeight (heightLeft - 295)
      else [])"
    by (simp add: addPages_pos addPages_nonpos)
  ultimately show ?thesis
    by (simp add: paginate_def pageHeight_def imgWidth_def)
qed

text \<open>
  C6 (the k-th added page places the image at \<open>-(295 - 30) * k\<close>). The loop resets
  \<open>position\<close> to 0 and places the image at \<open>position - (pageHeight - 30)\<close> on every
  added page (\<open>paginate_offsets\<close>): for the height 561 the third page has the offset
  -265 of the second, not -530.
\<close>

theorem paginate_third_page_offset:
  "pageCount (paginate 561) = 3 \<and> offsets (paginate 561) = [30, - 265, - 265] \<and>
   - (295 - 30) * 2 = (- 530 :: real)"
  by (simp add: paginate_def pageHeight_def addPages_pos addPages_nonpos)

section \<open>Properties of the weather component\<close>

text \<open>
  C7: a condition code is mapped to one category by its range: 200-299 thunderstorm,
  300-399 drizzle, 500-599 rain, 600-699 snow, 700-799 atmosphere, 800 clear, above 800
  clouds. The categories are distinct, and the codes of no listed range (below 200,
  400-499) get the plain cloud.
\<close>

theorem getWeatherIcon_ranges:
  "(200 \<le> c \<and> c \<le> 299 \<longrightarrow> getWeatherIcon c = CloudLightning) \<and>
   (300 \<le> c \<and> c \<le> 399 \<longrightarrow> getWeatherIcon c = CloudDrizzle) \<and>
   (500 \<le> c \<and> c \<le> 599 \<longrightarrow> getWeatherIcon c = CloudRain) \<and>
   (600 \<le> c \<and> c \<le> 699 \<longrightarrow> getWeatherIcon c = Snowflake) \<and>
   (700 \<le> c \<and> c \<le> 799 \<longrightarrow> getWeatherIcon c = CloudFog) \<and>
   (c = 800 \<longrightarrow> getWeatherIcon c = Sun) \<and>
   (800 < c \<longrightarrow> getWeatherIcon c = CloudSun) \<and>
   (c < 200 \<or> 400 \<le> c \<and> c \<le> 499 \<longrightarrow> getWeatherIcon c = Cloud) \<and>
   distinct [CloudLightning, CloudDrizzle, CloudRain, Snowflake, CloudFog, Sun, CloudSun, Cloud]"
  by (simp add: getWeatherIcon_def)

text \<open>Witness of C7: one code of each range.\<close>

theorem getWeatherIcon_ranges_witness:
  "getWeatherIcon 200 = CloudLightning \<and> getWeatherIcon 399 = CloudDrizzle \<and>
   getWeatherIcon 500 = CloudRain \<and> getWeatherIcon 699 = Snowflake \<and>
   getWeatherIcon 741 = CloudFog \<and> getWeatherIcon 800 = Sun \<and>
   getWeatherIcon 801 = CloudSun \<and> getWeatherIcon 450 = Cloud"
  using getWeatherIcon_ranges [of 200] getWeatherIcon_ranges [of 399]
    getWeatherIcon_ranges [of 500] getWeatherIcon_ranges [of 699]
    getWeatherIcon_ranges [of 741] getWeatherIcon_ranges [of 800]
    getWeatherIcon_ranges [of 801] getWeatherIcon_ranges [of 450]
  by simp

text \<open>
  C8: when the request fails (the fetch rejects, the response is not ok, or its body
  cannot be read), \<open>fetchWeatherData\<close> returns normally with the placeholder reading
  (Unknown, 25, 60, 10) as the weather, the error message set, loading ended and one
  destructive toast added.
\<close>

theorem fetch_failure_placeholder:
  assumes "fetch_failed res"
  shows "fetchWeatherData loc res s =
     s\<lparr>weather := Some \<lparr>condition = ''Unknown'', temperature = 25, humidity = 60,
                          windSpeed = 10, icon = Cloud\<rparr>,
       weather_loading := False,
       weather_error := Some (''Could not fetch weather data for '' @ loc),
       weather_toasts := weather_toasts s @
         [\<lparr>toast_title = ''Weather data error'',
           toast_description = ''Could not load weather for '' @ loc @ ''. Using default data.'',
           toast_variant = Some ''destructive''\<rparr>]\<rparr>"
  using assms
  by (cases res rule: fetch_failed.cases) (simp_all add: fetchWeatherData_def fetchFailed_def)

text \<open>Witness of C8: a response that is not ok, from the initial state.\<close>

theorem fetch_failure_placeholder_witness:
  "fetch_failed (Response False None) \<and>
   weather (weatherEffect ''Pune'' (Response False None) weather_initial) =
     Some \<lparr>condition = ''Unknown'', temperature = 25, humidity = 60, windSpeed = 10, icon = Cloud\<rparr> \<and>
   weather_error (weatherEffect ''Pune'' (Response False None) weather_initial) =
     Some ''Could not fetch weather data for Pune''"
proof -
  have f: "fetch_failed (Response False None)"
    by simp
  show ?thesis
    using f fetch_failure_placeholder [OF f, of "''Pune''"]
    by (simp add: weatherEffect_def)
qed

section \<open>Properties of the hook\<close>

lemma deleteItinerary_signed_in_request:
  "requests (snd (deleteItinerary (Some uid) supabase ident s)) = requests s @ [DeleteItinerary ident uid]"
  by (simp add: deleteItinerary_def send_def show_toast_def Let_def split: answer.splits)

text \<open>
  C10: with no user signed in, \<open>deleteItinerary\<close> returns false and
  \<open>fetchItineraryById\<close> returns null with the state untouched; \<open>saveItinerary\<close> and
  \<open>updateItinerary\<close> return false after the toast that asks to sign in. None issues a
  request to the backend and the stored itineraries stay as they are.
\<close>

theorem signed_out_operations:
  "deleteItinerary None supabase ident s = (False, s) \<and>
   fetchItineraryById None supabase ident s = (None, s) \<and>
   saveItinerary None supabase dat itin s =
     (False, s\<lparr>toasts := toasts s @
        [\<lparr>toast_title = ''Authentication required'',
          toast_description = ''Please sign in to save your itinerary.'',
          toast_variant = Some ''destructive''\<rparr>]\<rparr>) \<and>
   updateItinerary None supabase now ident dat itin s =
     (False, s\<lparr>toasts := toasts s @
        [\<lparr>toast_title = ''Authentication required'',
          toast_description = ''Please sign in to update your itinerary.'',
          toast_variant = Some ''destructive''\<rparr>]\<rparr>) \<and>
   requests (snd (saveItinerary None supabase dat itin s)) = requests s \<and>
   requests (snd (updateItinerary None supabase now ident dat itin s)) = requests s \<and>
   itineraries (snd (saveItinerary None supabase dat itin s)) = itineraries s \<and>
   itineraries (snd (updateItinerary None supabase now ident dat itin s)) = itineraries s"
  by (simp add: deleteItinerary_def fetchItineraryById_def saveItinerary_def updateItinerary_def
      show_toast_def destructive_def)

section \<open>Properties of the map lifecycle\<close>

lemma owned_initial: "owned (initial r)"
  by (simp add: owned_def initial_def)

lemma removeMap_disposes:
  "owned s \<Longrightarrow> mapInstance (removeMap s) = None \<and> liveMaps (removeMap s) = [] \<and>
     mapsCreated (removeMap s) = mapsCreated s"
  by (auto simp: owned_def removeMap_def split: option.splits)

lemma owned_removeMap:
  assumes "owned s"
  shows "owned (removeMap s)"
  using removeMap_disposes [OF assms] by (simp add: owned_def)

lemma owned_update:
  "owned (s\<lparr>phase := p\<rparr>) = owned s"
  "owned (s\<lparr>isOpen := b\<rparr>) = owned s"
  "owned (s\<lparr>itinerary := itin\<rparr>) = owned s"
  "owned (s\<lparr>leafletLoaded := l\<rparr>) = owned s"
  "owned (s\<lparr>timeoutPending := t\<rparr>) = owned s"
  "owned (s\<lparr>map_error := e\<rparr>) = owned s"
  "owned (s\<lparr>mapLoaded := ld\<rparr>) = owned s"
  "owned (s\<lparr>random := rs\<rparr>) = owned s"
  "owned (s\<lparr>onMap := ms\<rparr>) = owned s"
  "owned (s\<lparr>boundsFitted := bf\<rparr>) = owned s"
  by (simp_all add: owned_def)

lemma owned_initEffect: "owned s \<Longrightarrow> owned (initEffect s)"
  by (simp add: initEffect_def owned_update)

lemma owned_closeEffect: "owned s \<Longrightarrow> owned (closeEffect s)"
  by (simp add: closeEffect_def owned_removeMap)

lemma owned_render: "owned s \<Longrightarrow> owned (render opn itin s)"
  by (cases "phase s")
    (simp_all add: render_def Let_def owned_initEffect owned_closeEffect owned_update)

lemma createMap_fresh:
  assumes "mapInstance s = None" and "liveMaps s = []"
  shows "liveMaps (createMap s) = [mapsCreated s] \<and>
     mapInstance (createMap s) = Some (mapsCreated s) \<and>
     mapsCreated (createMap s) = Suc (mapsCreated s)"
  using assms by (simp add: createMap_def Let_def split: option.splits)

lemma timeout_creates:
  assumes "owned s" and "phase s = Mounted" and "timeoutPending s"
  shows "liveMaps (timeout True None s) = [mapsCreated s] \<and>
     mapInstance (timeout True None s) = Some (mapsCreated s) \<and>
     mapsCreated (timeout True None s) = Suc (mapsCreated s)"
proof -
  let ?s0 = "s\<lparr>timeoutPending := False\<rparr>"
  let ?s1 = "if mapInstance ?s0 \<noteq> None then removeMap ?s0 else ?s0"
  have o: "owned ?s0"
    using assms(1) by (auto simp: owned_def split: option.splits)
  have "mapInstance ?s1 = None \<and> liveMaps ?s1 = [] \<and> mapsCreated ?s1 = mapsCreated s"
  proof (cases "mapInstance s")
    case None
    with assms(1) show ?thesis by (auto simp: owned_def split: option.splits)
  next
    case (Some m)
    with removeMap_disposes [OF o] show ?thesis by simp
  qed
  then have "liveMaps (createMap ?s1) = [mapsCreated s] \<and>
     mapInstance (createMap ?s1) = Some (mapsCreated s) \<and>
     mapsCreated (createMap ?s1) = Suc (mapsCreated s)"
    using createMap_fresh [of ?s1] by simp
  moreover have "timeout True None s = createMap ?s1"
    using assms(2,3) by (simp add: timeout_def Let_def)
  ultimately show ?thesis
    by simp
qed

lemma owned_timeout:
  assumes o: "owned s"
  shows "owned (timeout container throws s)"
proof -
  let ?s0 = "s\<lparr>timeoutPending := False\<rparr>"
  define s1 where "s1 = (if mapInstance ?s0 \<noteq> None then removeMap ?s0 else ?s0)"
  have o0: "owned ?s0"
    using o by (simp add: owned_update)
  then have o1: "owned s1"
    unfolding s1_def by (simp add: owned_removeMap)
  have d: "mapInstance s1 = None \<and> liveMaps s1 = []"
  proof (cases "mapInstance s")
    case None
    with o show ?thesis by (auto simp: s1_def owned_def)
  next
    case (Some m)
    with removeMap_disposes [OF o0] show ?thesis by (simp add: s1_def)
  qed
  then have c: "owned (createMap s1)"
    using createMap_fresh [of s1] by (simp add: owned_def)
  have "timeout container throws s =
      (if phase s \<noteq> Mounted \<or> \<not> timeoutPending s then s
       else if \<not> container then ?s0\<lparr>map_error := Some ''Map container not found''\<rparr>
       else case throws of
              None \<Rightarrow> createMap s1
            | Some msg \<Rightarrow> s1\<lparr>map_error := Some (''Could not load the map: '' @ msg)\<rparr>)"
    by (cases throws) (simp_all add: timeout_def Let_def s1_def)
  with o o0 o1 c show ?thesis
    by (simp add: owned_update split: option.splits)
qed

lemma owned_unmount: "owned s \<Longrightarrow> owned (unmount s)"
proof -
  assume o: "owned s"
  then have "owned (removeMap s)"
    by (rule owned_removeMap)
  then have "owned ((removeMap s)\<lparr>timeoutPending := False, phase := Unmounted\<rparr>)"
    by (auto simp: owned_def split: option.splits)
  with o show ?thesis
    by (simp add: unmount_def)
qed

lemma owned_step: "owned s \<Longrightarrow> owned (step s e)"
  by (cases e) (simp_all add: owned_render owned_timeout owned_unmount owned_update)

lemma owned_foldl: "owned s \<Longrightarrow> owned (foldl step s evs)"
  by (induction evs arbitrary: s) (simp_all add: owned_step)

lemma owned_run: "owned (run r evs)"
  unfolding run_def using owned_initial by (rule owned_foldl)

lemma run_snoc: "run r (evs @ [e]) = step (run r evs) e"
  by (simp add: run_def)

lemma owned_length: "owned s \<Longrightarrow> length (liveMaps s) \<le> 1"
  by (simp add: owned_def split: option.splits)

lemma hide_disposes:
  assumes "owned s" and "phase s = Mounted" and "isOpen s"
  shows "liveMaps (render False itin s) = [] \<and> \<not> timeoutPending (render False itin s)"
proof -
  let ?s1 = "initEffect (s\<lparr>timeoutPending := False, isOpen := False, itinerary := itin\<rparr>)"
  have s1: "?s1 = s\<lparr>timeoutPending := False, isOpen := False, itinerary := itin\<rparr>"
    by (simp add: initEffect_def)
  have o: "owned ?s1"
    using assms(1) unfolding s1 by (auto simp: owned_def split: option.splits)
  have "liveMaps (closeEffect ?s1) = [] \<and> \<not> timeoutPending (closeEffect ?s1)"
  proof (cases "mapInstance s")
    case None
    with assms(1) show ?thesis
      unfolding s1 by (simp add: closeEffect_def owned_def)
  next
    case (Some m)
    then have "closeEffect ?s1 = removeMap ?s1"
      unfolding s1 by (simp add: closeEffect_def)
    moreover have "timeoutPending (removeMap ?s1) = timeoutPending ?s1"
      by (simp add: removeMap_def split: option.splits)
    ultimately show ?thesis
      using removeMap_disposes [OF o] by (simp add: s1)
  qed
  moreover have "render False itin s = closeEffect ?s1"
    using assms(2,3) by (simp add: render_def Let_def)
  ultimately show ?thesis
    by simp
qed

text \<open>
  C9: after any sequence of events at most one map is live, and it is the one the ref
  holds. When the pending timer fires with the container present, the map of the
  earlier attempt is removed before the new one is created: the new map, which was not
  live before, is then the only live one. Hiding an open dialog leaves no live map, so
  hiding, showing and letting the timer fire never gives two.
\<close>

theorem one_live_map:
  "length (liveMaps (run r evs)) \<le> 1 \<and>
   liveMaps (run r evs) = (case mapInstance (run r evs) of None \<Rightarrow> [] | Some m \<Rightarrow> [m]) \<and>
   (phase (run r evs) = Mounted \<and> timeoutPending (run r evs) \<longrightarrow>
      liveMaps (run r (evs @ [Timeout True None])) = [mapsCreated (run r evs)] \<and>
      mapsCreated (run r evs) \<notin> set (liveMaps (run r evs))) \<and>
   (phase (run r evs) = Mounted \<and> isOpen (run r evs) \<longrightarrow>
      liveMaps (run r (evs @ [Render False itin])) = []) \<and>
   length (liveMaps (run r (evs @ [Render False itin, Render True itin', Timeout container throws]))) \<le> 1"
proof -
  have o: "owned (run r evs)"
    by (rule owned_run)
  have "liveMaps (run r evs) = (case mapInstance (run r evs) of None \<Rightarrow> [] | Some m \<Rightarrow> [m])"
    using o by (simp add: owned_def split: option.splits)
  moreover have "mapsCreated (run r evs) \<notin> set (liveMaps (run r evs))"
    using o by (auto simp: owned_def split: option.splits)
  moreover have "length (liveMaps (run r (evs @ [Render False itin, Render True itin', Timeout container throws]))) \<le> 1"
    by (rule owned_length) (rule owned_run)
  ultimately show ?thesis
    using o timeout_creates [of "run r evs"] hide_disposes [of "run r evs" itin]
    by (auto simp: owned_length run_snoc split: option.splits)
qed

text \<open>
  Witness of C9: after a first map, a hide and a show, the timer is pending in the
  mounted, open component; its firing creates the second map as the only live one.
\<close>

theorem one_live_map_witness:
  "phase (run (constant_source 0) hide_then_show) = Mounted \<and>
   timeoutPending (run (constant_source 0) hide_then_show) \<and>
   isOpen (run (constant_source 0) hide_then_show) \<and>
   liveMaps (run (constant_source 0) hide_then_show) = [] \<and>
   mapsCreated (run (constant_source 0) hide_then_show) = 1 \<and>
   liveMaps (run (constant_source 0) (hide_then_show @ [Timeout True None])) = [1] \<and>
   liveMaps (run (constant_source 0) (hide_then_show @ [Render False []])) = []"
proof -
  have a: "phase (run (constant_source 0) hide_then_show) = Mounted"
    by code_simp
  have b: "timeoutPending (run (constant_source 0) hide_then_show)"
    by code_simp
  have c: "isOpen (run (constant_source 0) hide_then_show)"
    by code_simp
  have d: "mapsCreated (run (constant_source 0) hide_then_show) = 1"
    by code_simp
  have e: "liveMaps (run (constant_source 0) hide_then_show) = []"
    by code_simp
  show ?thesis
    using a b c d e one_live_map [of "constant_source 0" hide_then_show "[]"]
    by simp
qed

end
